theory Spec2Isabelle
  imports Main "HOL-Library.Word" "HOL-Library.Multiset"
begin

section \<open>Data model of the graph library\<close>

text \<open>
  The library (\<^verbatim>\<open>src/lib/full_graph_lib.c\<close>) keeps a graph as a singly linked list of
  cells, each holding a node by value; a node holds a pointer to a singly linked list of
  edge cells. The embedding reads a linked list as a HOL list of its cells from the head
  on (\<^verbatim>\<open>NULL\<close> is \<open>[]\<close>), and a pointer into a list as the sublist that starts at the
  cell pointed to.

  \<^item> \<^verbatim>\<open>id_t\<close> is \<^verbatim>\<open>unsigned int\<close>: a 32-bit word, whose \<open>+\<close> wraps.
  \<^item> \<^verbatim>\<open>int weight\<close> is kept as a 32-bit word (read with \<open>sint\<close>); the library only
    stores and copies it.
  \<^item> \<^verbatim>\<open>endpoint_ids[2]\<close> is a pair: \<open>fst\<close> is index 0, \<open>snd\<close> is index 1.
  \<^item> The four globals of the allocator are the record \<open>globals\<close>, passed through every
    function that reads or writes them.
  \<^item> Every \<^verbatim>\<open>malloc\<close> is taken to succeed; the branches that only print an error after
    a failed allocation are left out.
  \<^item> A function whose loop does not end is modelled with result type \<open>option\<close>, the value
    \<open>None\<close> standing for "does not return".
  \<^item> A function that reads a field of a cell it has freed has no defined result in C; it
    is modelled with a sum type, \<open>Inl Read_of_freed_cell\<close> standing for that read.
\<close>

type_synonym id_t = "32 word"

record graph_edge =
  edge_weight :: "32 word"
  edge_id :: id_t
  edge_label :: string
  endpoint_ids :: "id_t \<times> id_t"

type_synonym graph_edge_list = "graph_edge list"

record graph_node =
  node_id :: id_t
  node_label :: string
  edges :: graph_edge_list

type_synonym graph = "graph_node list"

type_synonym id_list = "id_t list"

record globals =
  global_node_id :: id_t
  revoked_node_ids :: id_list
  global_edge_id :: id_t
  revoked_edge_ids :: id_list

datatype error = Read_of_freed_cell

definition ERROR_ID :: id_t where
  "ERROR_ID = 0"

text \<open>The values the globals are initialised with: both counters are 1, both lists empty.\<close>

definition initial_globals :: globals where
  "initial_globals =
     \<lparr>global_node_id = 1, revoked_node_ids = [], global_edge_id = 1, revoked_edge_ids = []\<rparr>"

section \<open>The identifier allocator\<close>

text \<open>\<^verbatim>\<open>return global_node_id++;\<close>: the value before the increment, and the new state.\<close>

definition set_node_id :: "globals \<Rightarrow> id_t \<times> globals" where
  "set_node_id s = (global_node_id s, s\<lparr>global_node_id := global_node_id s + 1\<rparr>)"

definition set_edge_id :: "globals \<Rightarrow> id_t \<times> globals" where
  "set_edge_id s = (global_edge_id s, s\<lparr>global_edge_id := global_edge_id s + 1\<rparr>)"

text \<open>\<^verbatim>\<open>append_revoked_id\<close> walks to the last cell and links a new cell behind it.\<close>

fun append_revoked_id :: "id_list \<Rightarrow> id_t \<Rightarrow> id_list" where
  "append_revoked_id [] i = [i]"
| "append_revoked_id (x # xs) i = x # append_revoked_id xs i"

text \<open>\<^verbatim>\<open>pop_front_revoked_id\<close> returns the rest of the list and writes the head's id through
  its second argument; on an empty list it writes \<^verbatim>\<open>ERROR_ID\<close>.\<close>

fun pop_front_revoked_id :: "id_list \<Rightarrow> id_list \<times> id_t" where
  "pop_front_revoked_id [] = ([], ERROR_ID)"
| "pop_front_revoked_id (x # xs) = (xs, x)"

fun find_revoked_id :: "id_list \<Rightarrow> id_t \<Rightarrow> bool" where
  "find_revoked_id [] i = False"
| "find_revoked_id (x # xs) i = (if x = i then True else find_revoked_id xs i)"

text \<open>\<^verbatim>\<open>exists_node_from_id\<close>: inside the test \<^verbatim>\<open>node_id <= global_node_id\<close> the loop
  looks for the id in the revoked list, and a hit resets the answer to false.\<close>

definition exists_node_from_id :: "globals \<Rightarrow> id_t \<Rightarrow> bool" where
  "exists_node_from_id s i =
     (if i \<le> global_node_id s
      then (if find_revoked_id (revoked_node_ids s) i then False else True)
      else False)"

definition exists_edge_from_id :: "globals \<Rightarrow> id_t \<Rightarrow> bool" where
  "exists_edge_from_id s i =
     (if i \<le> global_edge_id s
      then (if find_revoked_id (revoked_edge_ids s) i then False else True)
      else False)"

text \<open>\<^verbatim>\<open>create_new_node\<close>: no edges, the given label, and an id taken from the revoked
  list when that list is not \<^verbatim>\<open>NULL\<close>, from the counter otherwise.\<close>

definition create_new_node :: "globals \<Rightarrow> string \<Rightarrow> graph_node \<times> globals" where
  "create_new_node s lbl =
     (if revoked_node_ids s \<noteq> []
      then (let (l, i) = pop_front_revoked_id (revoked_node_ids s)
            in (\<lparr>node_id = i, node_label = lbl, edges = []\<rparr>, s\<lparr>revoked_node_ids := l\<rparr>))
      else (let (i, s') = set_node_id s
            in (\<lparr>node_id = i, node_label = lbl, edges = []\<rparr>, s')))"

definition create_new_edge ::
  "globals \<Rightarrow> 32 word \<Rightarrow> string \<Rightarrow> id_t \<times> id_t \<Rightarrow> graph_edge \<times> globals" where
  "create_new_edge s w lbl endpoints =
     (if revoked_edge_ids s \<noteq> []
      then (let (l, i) = pop_front_revoked_id (revoked_edge_ids s)
            in (\<lparr>edge_weight = w, edge_id = i, edge_label = lbl, endpoint_ids = endpoints\<rparr>,
                s\<lparr>revoked_edge_ids := l\<rparr>))
      else (let (i, s') = set_edge_id s
            in (\<lparr>edge_weight = w, edge_id = i, edge_label = lbl, endpoint_ids = endpoints\<rparr>,
                s')))"

section \<open>Graph store and edge collection\<close>

text \<open>\<^verbatim>\<open>push_node\<close> and \<^verbatim>\<open>push_edge\<close> allocate and link the new cell inside
  \<^verbatim>\<open>if (graph)\<close>, respectively \<^verbatim>\<open>if (edges)\<close>.\<close>

definition push_node :: "graph \<Rightarrow> graph_node \<Rightarrow> graph" where
  "push_node g n = (if g \<noteq> [] then n # g else g)"

definition push_edge :: "graph_edge_list \<Rightarrow> graph_edge \<Rightarrow> graph_edge_list" where
  "push_edge es e = (if es \<noteq> [] then e # es else es)"

fun append_node :: "graph \<Rightarrow> graph_node \<Rightarrow> graph" where
  "append_node [] n = [n]"
| "append_node (m # g) n = m # append_node g n"

fun append_edge :: "graph_edge_list \<Rightarrow> graph_edge \<Rightarrow> graph_edge_list" where
  "append_edge [] e = [e]"
| "append_edge (d # es) e = d # append_edge es e"

text \<open>\<^verbatim>\<open>find_node\<close> returns the first cell whose node has the id, \<^verbatim>\<open>NULL\<close> when there is
  none.\<close>

fun find_node :: "graph \<Rightarrow> id_t \<Rightarrow> graph" where
  "find_node [] i = []"
| "find_node (n # g) i = (if node_id n \<noteq> i then find_node g i else n # g)"

fun find_edge :: "graph_edge_list \<Rightarrow> id_t \<Rightarrow> graph_edge_list" where
  "find_edge [] i = []"
| "find_edge (e # es) i = (if edge_id e \<noteq> i then find_edge es i else e # es)"

fun graph_dim :: "graph \<Rightarrow> nat" where
  "graph_dim [] = 0"
| "graph_dim (n # g) = Suc (graph_dim g)"

fun edge_list_dim :: "graph_edge_list \<Rightarrow> nat" where
  "edge_list_dim [] = 0"
| "edge_list_dim (e # es) = Suc (edge_list_dim es)"

text \<open>\<^verbatim>\<open>delete_node\<close> unlinks the first cell whose node has the id and appends that id to
  \<^verbatim>\<open>revoked_node_ids\<close>; nothing else is written. The edge cells of the node are neither
  freed nor revoked.\<close>

fun delete_node :: "globals \<Rightarrow> graph \<Rightarrow> id_t \<Rightarrow> graph \<times> globals" where
  "delete_node s [] i = ([], s)"
| "delete_node s (n # g) i =
     (if node_id n \<noteq> i
      then (let (g', s') = delete_node s g i in (n # g', s'))
      else (g, s\<lparr>revoked_node_ids := append_revoked_id (revoked_node_ids s) (node_id n)\<rparr>))"

text \<open>The inner loop of \<^verbatim>\<open>delete_graph\<close> and the loop of \<^verbatim>\<open>delete_edge_list\<close>: every
  edge id of the list is appended to \<^verbatim>\<open>revoked_edge_ids\<close>.\<close>

fun revoke_edge_ids :: "globals \<Rightarrow> graph_edge_list \<Rightarrow> globals" where
  "revoke_edge_ids s [] = s"
| "revoke_edge_ids s (e # es) =
     revoke_edge_ids (s\<lparr>revoked_edge_ids := append_revoked_id (revoked_edge_ids s) (edge_id e)\<rparr>) es"

definition delete_edge_list :: "globals \<Rightarrow> graph_edge_list \<Rightarrow> graph_edge_list \<times> globals" where
  "delete_edge_list s es = ([], revoke_edge_ids s es)"

fun delete_graph :: "globals \<Rightarrow> graph \<Rightarrow> graph \<times> globals" where
  "delete_graph s [] = ([], s)"
| "delete_graph s (n # g) =
     delete_graph
       (revoke_edge_ids
          (s\<lparr>revoked_node_ids := append_revoked_id (revoked_node_ids s) (node_id n)\<rparr>)
          (edges n))
       g"

text \<open>\<^verbatim>\<open>delete_edge\<close> does nothing unless the list is non-empty and
  \<^verbatim>\<open>exists_edge_from_id(id)\<close> holds; then it unlinks the first cell with the id and
  revokes the id.\<close>

fun unlink_edge :: "globals \<Rightarrow> graph_edge_list \<Rightarrow> id_t \<Rightarrow> graph_edge_list \<times> globals" where
  "unlink_edge s [] i = ([], s)"
| "unlink_edge s (e # es) i =
     (if edge_id e \<noteq> i
      then (let (es', s') = unlink_edge s es i in (e # es', s'))
      else (es, s\<lparr>revoked_edge_ids := append_revoked_id (revoked_edge_ids s) (edge_id e)\<rparr>))"

definition delete_edge :: "globals \<Rightarrow> graph_edge_list \<Rightarrow> id_t \<Rightarrow> graph_edge_list \<times> globals" where
  "delete_edge s es i =
     (if es \<noteq> [] \<and> exists_edge_from_id s i then unlink_edge s es i else (es, s))"

text \<open>\<^verbatim>\<open>get_node_from_id\<close> runs the same scan as \<^verbatim>\<open>find_node\<close> and returns
  \<^verbatim>\<open>&(ptr->node)\<close>. The node is the first member of the cell, so for \<^verbatim>\<open>ptr == NULL\<close> the
  address computed is \<^verbatim>\<open>NULL\<close>, which is what the function's comment announces and what
  every caller tests for. The pointer to a node is modelled as the position of its cell.\<close>

fun get_node_from_id :: "graph \<Rightarrow> id_t \<Rightarrow> nat option" where
  "get_node_from_id [] i = None"
| "get_node_from_id (n # g) i =
     (if node_id n \<noteq> i then map_option Suc (get_node_from_id g i) else Some 0)"

fun delete_edge_from_node :: "globals \<Rightarrow> graph \<Rightarrow> id_t \<Rightarrow> id_t \<Rightarrow> graph \<times> globals" where
  "delete_edge_from_node s [] nid eid = ([], s)"
| "delete_edge_from_node s (n # g) nid eid =
     (if node_id n \<noteq> nid
      then (let (g', s') = delete_edge_from_node s g nid eid in (n # g', s'))
      else (let (es, s') = delete_edge s (edges n) eid in (n\<lparr>edges := es\<rparr> # g, s')))"


section \<open>Adjacency matrix and structural copy\<close>

text \<open>The innermost loop of \<^verbatim>\<open>create_graph_matrix\<close>: is there an edge of the row's node
  whose \<^verbatim>\<open>endpoint_ids[1]\<close> is the column's node id?\<close>

fun found_common_edge :: "graph_edge_list \<Rightarrow> id_t \<Rightarrow> bool" where
  "found_common_edge [] c = False"
| "found_common_edge (e # es) c =
     (if snd (endpoint_ids e) = c then True else found_common_edge es c)"

definition matrix_row :: "graph \<Rightarrow> graph_node \<Rightarrow> int list" where
  "matrix_row g row =
     map (\<lambda>col. if found_common_edge (edges row) (node_id col) then 1 else 0) g"

text \<open>The matrix is the flat array \<^verbatim>\<open>mat[j + i * dim]\<close>, row after row; \<^verbatim>\<open>NULL\<close> (here
  \<open>None\<close>) for the empty graph.\<close>

definition create_graph_matrix :: "graph \<Rightarrow> int list option" where
  "create_graph_matrix g = (if g \<noteq> [] then Some (concat (map (matrix_row g) g)) else None)"

text \<open>First loop of \<^verbatim>\<open>create_graph_copy\<close>: one new node per old node, with the old label.\<close>

fun copy_nodes :: "globals \<Rightarrow> graph \<Rightarrow> graph \<Rightarrow> graph \<times> globals" where
  "copy_nodes s [] graph = (graph, s)"
| "copy_nodes s (n # ptr) graph =
     (let (c, s1) = create_new_node s (node_label n) in copy_nodes s1 ptr (append_node graph c))"

text \<open>\<^verbatim>\<open>while (ptr3->next && k < i)\<close> and \<^verbatim>\<open>while (ptr4->next && k < j)\<close>: at most so many
  steps, stopping at the last cell.\<close>

fun walk_graph :: "graph \<Rightarrow> nat \<Rightarrow> graph" where
  "walk_graph (n # m # g) (Suc k) = walk_graph (m # g) k"
| "walk_graph g k = g"

fun walk_edges :: "graph_edge_list \<Rightarrow> nat \<Rightarrow> graph_edge_list" where
  "walk_edges (e # d # es) (Suc k) = walk_edges (d # es) k"
| "walk_edges es k = es"

text \<open>The body of the inner loop of \<^verbatim>\<open>create_graph_copy\<close> for row \<open>i\<close> and column \<open>j\<close>.
  Weight and label are read from the edge found by walking \<open>j\<close> steps into the edge list
  of the old graph's node \<open>i\<close>. A cell of the matrix is 1 only if that node has an edge, so
  neither walk starts from \<^verbatim>\<open>NULL\<close>; the two \<open>[]\<close> cases are never taken.\<close>

definition copy_cell ::
  "globals \<Rightarrow> graph \<Rightarrow> int list \<Rightarrow> nat \<Rightarrow> graph \<Rightarrow> nat \<Rightarrow> nat \<Rightarrow> graph \<times> globals" where
  "copy_cell s old_graph old_mat dim graph i j =
     (if old_mat ! (j + i * dim) = 1
      then (case walk_graph old_graph i of
              [] \<Rightarrow> (graph, s)
            | ptr3 # _ \<Rightarrow>
                (case walk_edges (edges ptr3) j of
                   [] \<Rightarrow> (graph, s)
                 | ptr4 # _ \<Rightarrow>
                     (let (e, s1) = create_new_edge s (edge_weight ptr4) (edge_label ptr4)
                                      (node_id (graph ! i), node_id (graph ! j))
                      in (graph[i := (graph ! i)\<lparr>edges := append_edge (edges (graph ! i)) e\<rparr>],
                          s1))))
      else (graph, s))"

fun copy_row ::
  "globals \<Rightarrow> graph \<Rightarrow> int list \<Rightarrow> nat \<Rightarrow> graph \<Rightarrow> nat \<Rightarrow> nat \<Rightarrow> graph \<Rightarrow> graph \<times> globals" where
  "copy_row s old_graph old_mat dim graph i j [] = (graph, s)"
| "copy_row s old_graph old_mat dim graph i j (c # ptr2) =
     (let (graph1, s1) = copy_cell s old_graph old_mat dim graph i j
      in copy_row s1 old_graph old_mat dim graph1 i (Suc j) ptr2)"

fun copy_rows ::
  "globals \<Rightarrow> graph \<Rightarrow> int list \<Rightarrow> nat \<Rightarrow> graph \<Rightarrow> nat \<Rightarrow> graph \<Rightarrow> graph \<times> globals" where
  "copy_rows s old_graph old_mat dim graph i [] = (graph, s)"
| "copy_rows s old_graph old_mat dim graph i (c # ptr) =
     (let (graph1, s1) = copy_row s old_graph old_mat dim graph i 0 graph
      in copy_rows s1 old_graph old_mat dim graph1 (Suc i) ptr)"

definition create_graph_copy :: "globals \<Rightarrow> graph \<Rightarrow> graph \<times> globals" where
  "create_graph_copy s old_graph =
     (case create_graph_matrix old_graph of
        None \<Rightarrow> ([], s)
      | Some old_mat \<Rightarrow>
          (let (graph, s1) = copy_nodes s old_graph []
           in copy_rows s1 old_graph old_mat (graph_dim old_graph) graph 0 graph))"

section \<open>Vertex contraction\<close>

text \<open>\<^verbatim>\<open>while (ptr && (ptr->edge.endpoint_ids[1] != id)) ptr = ptr->next;\<close>\<close>

fun first_edge_to :: "graph_edge_list \<Rightarrow> id_t \<Rightarrow> graph_edge_list" where
  "first_edge_to [] i = []"
| "first_edge_to (e # es) i = (if snd (endpoint_ids e) \<noteq> i then first_edge_to es i else e # es)"

text \<open>Removal of the edge from the node at position \<open>pos\<close> (whose id is \<open>owner\<close>) to
  \<open>target\<close>, if the scan finds one: \<^verbatim>\<open>delete_edge_from_node(graph, owner, ptr->edge.id)\<close>.\<close>

definition unlink_mutual_edge ::
  "globals \<Rightarrow> graph \<Rightarrow> nat \<Rightarrow> id_t \<Rightarrow> id_t \<Rightarrow> graph \<times> globals" where
  "unlink_mutual_edge s g pos owner target =
     (case first_edge_to (edges (g ! pos)) target of
        [] \<Rightarrow> (g, s)
      | e # _ \<Rightarrow> delete_edge_from_node s g owner (edge_id e))"

text \<open>The body of the loop over \<^verbatim>\<open>ptr2\<close>.\<close>

definition relink_edge :: "id_t \<Rightarrow> graph_edge \<Rightarrow> graph_edge" where
  "relink_edge first_node_id e =
     (if fst (endpoint_ids e) \<noteq> first_node_id
      then e\<lparr>endpoint_ids :=
              (first_node_id,
               if fst (endpoint_ids e) = snd (endpoint_ids e) then first_node_id
               else snd (endpoint_ids e))\<rparr>
      else e)"

text \<open>The body of the loop over \<^verbatim>\<open>ptr4\<close> and \<^verbatim>\<open>ptr3\<close>.\<close>

definition redirect_edge :: "id_t \<Rightarrow> id_t \<Rightarrow> graph_edge \<Rightarrow> graph_edge" where
  "redirect_edge first_node_id second_node_id e =
     (if snd (endpoint_ids e) = second_node_id
      then e\<lparr>endpoint_ids := (fst (endpoint_ids e), first_node_id)\<rparr>
      else e)"

definition redirect_node :: "id_t \<Rightarrow> id_t \<Rightarrow> graph_node \<Rightarrow> graph_node" where
  "redirect_node first_node_id second_node_id n =
     (if node_id n \<noteq> second_node_id
      then n\<lparr>edges := map (redirect_edge first_node_id second_node_id) (edges n)\<rparr>
      else n)"

text \<open>
  \<^verbatim>\<open>vertex_contraction(graph, first_node_id, second_node_id)\<close>; \<open>m\<close> and \<open>d\<close> are the
  positions of \<^verbatim>\<open>merge_node\<close> and \<^verbatim>\<open>donor_node\<close>.

  The donor's edges are appended by \<^verbatim>\<open>ptr2 = append_edge(ptr2, ptr->edge)\<close>, where
  \<^verbatim>\<open>ptr2\<close> is a local variable initialised with \<^verbatim>\<open>merge_node->edges\<close>; the field
  \<^verbatim>\<open>merge_node->edges\<close> itself is never assigned. \<^verbatim>\<open>append_edge\<close> links the new cell behind
  the last cell of a non-empty list, so the merge node sees the appended and relinked
  cells exactly when its list was not \<^verbatim>\<open>NULL\<close>; otherwise the new cells hang from
  \<^verbatim>\<open>ptr2\<close> only.

  When both ids name the same node, \<^verbatim>\<open>ptr\<close> walks the very list that is being extended
  and never reaches its end: with a non-empty list the call does not return.
\<close>

definition vertex_contraction ::
  "globals \<Rightarrow> graph \<Rightarrow> id_t \<Rightarrow> id_t \<Rightarrow> (graph \<times> globals) option" where
  "vertex_contraction s graph first_node_id second_node_id =
     (case (get_node_from_id graph first_node_id, get_node_from_id graph second_node_id) of
        (Some m, Some d) \<Rightarrow>
          (let (g1, s1) = unlink_mutual_edge s graph m first_node_id second_node_id;
               (g2, s2) = unlink_mutual_edge s1 g1 d second_node_id first_node_id;
               donor_edges = edges (g2 ! d);
               merge_edges = edges (g2 ! m)
           in if m = d \<and> donor_edges \<noteq> [] then None
              else
                (let ptr2 = foldl append_edge merge_edges donor_edges;
                     relinked = map (relink_edge first_node_id) ptr2;
                     g3 = (if merge_edges \<noteq> []
                           then g2[m := (g2 ! m)\<lparr>edges := relinked\<rparr>] else g2);
                     g4 = map (redirect_node first_node_id second_node_id) g3
                 in Some (delete_node s2 g4 second_node_id)))
      | _ \<Rightarrow> Some (graph, s))"

section \<open>Complement\<close>

definition COMPLEMENTED_EDGE_DEFAULT_LABEL :: string where
  "COMPLEMENTED_EDGE_DEFAULT_LABEL = ''complemented_edge''"

definition COMPLEMENTED_EDGE_DEFAULT_WEIGHT :: "32 word" where
  "COMPLEMENTED_EDGE_DEFAULT_WEIGHT = 0"

text \<open>The template of a node: one new edge from \<open>src\<close> to every node of the graph.\<close>

fun build_template ::
  "globals \<Rightarrow> id_t \<Rightarrow> graph \<Rightarrow> graph_edge_list \<Rightarrow> graph_edge_list \<times> globals" where
  "build_template s src [] template = (template, s)"
| "build_template s src (n # ptr2) template =
     (let (e, s1) = create_new_edge s COMPLEMENTED_EDGE_DEFAULT_WEIGHT
                      COMPLEMENTED_EDGE_DEFAULT_LABEL (src, node_id n)
      in build_template s1 src ptr2 (append_edge template e))"

text \<open>
  The loop over \<^verbatim>\<open>template_ptr\<close> for one old edge. The template is kept in two parts:
  the cells linked before the cell visited, and the cells from the cell visited on. When
  the endpoints agree, \<^verbatim>\<open>delete_edge(template, template_ptr->edge.id)\<close> unlinks and frees
  the first cell of the template that has the id of the cell visited, provided
  \<^verbatim>\<open>exists_edge_from_id\<close> accepts the id. That cell is the cell visited itself unless a
  cell before it has the same id. The loop then executes
  \<^verbatim>\<open>template_ptr = template_ptr->next\<close>: when the cell visited has just been freed, this
  reads a freed cell, and the result is \<open>Read_of_freed_cell\<close>. Otherwise the loop goes on
  with the next cell.
\<close>

fun prune_template_for ::
  "globals \<Rightarrow> graph_edge \<Rightarrow> graph_edge_list \<Rightarrow> graph_edge_list
     \<Rightarrow> error + graph_edge_list \<times> globals" where
  "prune_template_for s old before [] = Inr (before, s)"
| "prune_template_for s old before (c # template_ptr) =
     (if fst (endpoint_ids old) = fst (endpoint_ids c)
         \<and> snd (endpoint_ids old) = snd (endpoint_ids c)
      then (let (template1, s1) = delete_edge s (before @ c # template_ptr) (edge_id c)
            in if exists_edge_from_id s (edge_id c) \<and> find_edge before (edge_id c) = []
               then Inl Read_of_freed_cell
               else prune_template_for s1 old
                      (take (length template1 - length template_ptr) template1) template_ptr)
      else prune_template_for s old (before @ [c]) template_ptr)"

text \<open>The loop over the old edges of the node; every round starts at the head of the
  template.\<close>

fun prune_template ::
  "globals \<Rightarrow> graph_edge_list \<Rightarrow> graph_edge_list \<Rightarrow> error + graph_edge_list \<times> globals" where
  "prune_template s [] template = Inr (template, s)"
| "prune_template s (old # es) template =
     (case prune_template_for s old [] template of
        Inl err \<Rightarrow> Inl err
      | Inr (template1, s1) \<Rightarrow> prune_template s1 es template1)"

text \<open>The outer loop of \<^verbatim>\<open>complement_graph\<close>: \<open>graph\<close> is the whole list (read for the node
  ids only, which the function never changes), the third argument the cells still to do.\<close>

fun complement_nodes :: "globals \<Rightarrow> graph \<Rightarrow> graph \<Rightarrow> error + graph \<times> globals" where
  "complement_nodes s graph [] = Inr ([], s)"
| "complement_nodes s graph (n # ptr) =
     (let (template0, s1) = build_template s (node_id n) graph []
      in case prune_template s1 (edges n) template0 of
           Inl err \<Rightarrow> Inl err
         | Inr (template, s2) \<Rightarrow>
             (let (freed, s3) = delete_edge_list s2 (edges n)
              in case complement_nodes s3 graph ptr of
                   Inl err \<Rightarrow> Inl err
                 | Inr (rest, s4) \<Rightarrow> Inr (n\<lparr>edges := template\<rparr> # rest, s4)))"

definition complement_graph :: "globals \<Rightarrow> graph \<Rightarrow> error + graph \<times> globals" where
  "complement_graph s graph = complement_nodes s graph graph"

section \<open>Binary operations\<close>

text \<open>\<^verbatim>\<open>disjoint_graph_union\<close> builds a new list of cells and copies every node struct into
  it by value: a node of the union has the same \<^verbatim>\<open>edges\<close> pointer as the node it was
  copied from.\<close>

definition disjoint_graph_union :: "graph \<Rightarrow> graph \<Rightarrow> graph" where
  "disjoint_graph_union graph1 graph2 = foldl append_node (foldl append_node [] graph1) graph2"

definition DEFAULT_LABEL_CARTESIAN_PRODUCT :: string where
  "DEFAULT_LABEL_CARTESIAN_PRODUCT = ''cartesian_product_edge''"

definition DEFAULT_WEIGHT_CARTESIAN_PRODUCT :: "32 word" where
  "DEFAULT_WEIGHT_CARTESIAN_PRODUCT = 0"

definition SERIES_EDGE_DEFAULT_LABEL :: string where
  "SERIES_EDGE_DEFAULT_LABEL = ''series_composition_edge''"

definition SERIES_EDGE_DEFAULT_WEIGHT :: "32 word" where
  "SERIES_EDGE_DEFAULT_WEIGHT = 0"

text \<open>First loop of \<^verbatim>\<open>cartesian_graph_product\<close>: \<open>dim1\<close> copies of \<^verbatim>\<open>graph2\<close>, kept in
  \<^verbatim>\<open>layers\<close>.\<close>

fun copy_layers :: "globals \<Rightarrow> graph \<Rightarrow> nat \<Rightarrow> graph list \<Rightarrow> graph list \<times> globals" where
  "copy_layers s graph2 0 layers = (layers, s)"
| "copy_layers s graph2 (Suc n) layers =
     (let (copy, s1) = create_graph_copy s graph2 in copy_layers s1 graph2 n (layers @ [copy]))"

text \<open>The search \<^verbatim>\<open>while (k < dim1 && !found)\<close>: the first index of the id in
  \<^verbatim>\<open>node_ids\<close>, the length of \<^verbatim>\<open>node_ids\<close> when it is not there.\<close>

fun find_node_ids :: "id_t list \<Rightarrow> id_t \<Rightarrow> nat" where
  "find_node_ids [] i = 0"
| "find_node_ids (x # xs) i = (if x = i then 0 else Suc (find_node_ids xs i))"

text \<open>In the second phase \<^verbatim>\<open>*(layers + j)\<close> points to cell \<open>i\<close> of copy \<open>j\<close>. For one edge
  \<^verbatim>\<open>ptr2\<close> of node \<open>j\<close> of \<^verbatim>\<open>graph1\<close> whose destination is node \<open>k\<close> of \<^verbatim>\<open>graph1\<close>, a new
  edge is appended to that cell's node.\<close>

definition link_layers_edge ::
  "globals \<Rightarrow> graph list \<Rightarrow> id_t list \<Rightarrow> nat \<Rightarrow> nat \<Rightarrow> graph_edge \<Rightarrow> graph list \<times> globals" where
  "link_layers_edge s layers node_ids i j ptr2 =
     (let k = find_node_ids node_ids (snd (endpoint_ids ptr2))
      in if k < length node_ids
         then (let endpoints = (node_id (layers ! j ! i), node_id (layers ! k ! i));
                   (e, s1) = create_new_edge s DEFAULT_WEIGHT_CARTESIAN_PRODUCT
                               DEFAULT_LABEL_CARTESIAN_PRODUCT endpoints
               in (layers[j := (layers ! j)
                     [i := (layers ! j ! i)\<lparr>edges := append_edge (edges (layers ! j ! i)) e\<rparr>]],
                   s1))
         else (layers, s))"

fun link_layers_node ::
  "globals \<Rightarrow> graph list \<Rightarrow> id_t list \<Rightarrow> nat \<Rightarrow> nat \<Rightarrow> graph_edge_list \<Rightarrow> graph list \<times> globals" where
  "link_layers_node s layers node_ids i j [] = (layers, s)"
| "link_layers_node s layers node_ids i j (e # ptr2) =
     (let (layers1, s1) = link_layers_edge s layers node_ids i j e
      in link_layers_node s1 layers1 node_ids i j ptr2)"

fun link_layers_row ::
  "globals \<Rightarrow> graph list \<Rightarrow> id_t list \<Rightarrow> nat \<Rightarrow> nat \<Rightarrow> graph \<Rightarrow> graph list \<times> globals" where
  "link_layers_row s layers node_ids i j [] = (layers, s)"
| "link_layers_row s layers node_ids i j (n # ptr) =
     (let (layers1, s1) = link_layers_node s layers node_ids i j (edges n)
      in link_layers_row s1 layers1 node_ids i (Suc j) ptr)"

fun link_layers :: "globals \<Rightarrow> graph list \<Rightarrow> graph \<Rightarrow> nat \<Rightarrow> nat \<Rightarrow> graph list \<times> globals" where
  "link_layers s layers graph1 i 0 = (layers, s)"
| "link_layers s layers graph1 i (Suc n) =
     (let (layers1, s1) = link_layers_row s layers (map node_id graph1) i 0 graph1
      in link_layers s1 layers1 graph1 (Suc i) n)"

text \<open>
  The product list \<^verbatim>\<open>cartesian\<close> is built in the first loop by
  \<^verbatim>\<open>append_node(cartesian, ptr->node)\<close>: each node struct of a copy is copied by value into
  a new cell, including its \<^verbatim>\<open>edges\<close> pointer. The second phase assigns
  \<^verbatim>\<open>(*(layers + j))->node.edges = append_edge(...)\<close>, a field of the copy's cell. If that
  list was not \<^verbatim>\<open>NULL\<close> when the node was copied into the product, the new edge cell is
  linked behind its last cell and the product's node reaches it too; if it was
  \<^verbatim>\<open>NULL\<close>, the product's node keeps \<^verbatim>\<open>NULL\<close>. \<open>seen_from_product\<close> is the node as the
  returned list holds it, given the copy's node at the end of the first loop and at the
  end of the function.
\<close>

definition seen_from_product :: "graph_node \<Rightarrow> graph_node \<Rightarrow> graph_node" where
  "seen_from_product copied final = (if edges copied \<noteq> [] then final else copied)"

definition cartesian_graph_product :: "globals \<Rightarrow> graph \<Rightarrow> graph \<Rightarrow> graph \<times> globals" where
  "cartesian_graph_product s graph1 graph2 =
     (if graph1 \<noteq> [] \<and> graph2 \<noteq> []
      then (let dim1 = graph_dim graph1;
                dim2 = graph_dim graph2;
                (layers, s1) = copy_layers s graph2 dim1 [];
                (layers', s2) = link_layers s1 layers graph1 0 dim2
            in (concat (map (\<lambda>(copy, copy'). map (\<lambda>(n, n'). seen_from_product n n') (zip copy copy'))
                          (zip layers layers')),
                s2))
      else ([], s))"

text \<open>
  \<^verbatim>\<open>parallel_graph_composition\<close>. The result is the returned list (\<open>[]\<close> for \<^verbatim>\<open>NULL\<close>),
  the two argument graphs as the call leaves them, and the globals. On the path that
  builds the union, the edge cells of the arguments are shared with the result and are
  unlinked, relinked and rewritten through it; the arguments are not followed any
  further there (\<open>None\<close>). The outer \<open>option\<close> is \<open>None\<close> when a contraction does not
  return.
\<close>

definition parallel_graph_composition ::
  "globals \<Rightarrow> graph \<Rightarrow> graph \<Rightarrow> id_t \<Rightarrow> id_t \<Rightarrow> id_t \<Rightarrow> id_t
   \<Rightarrow> (graph \<times> graph option \<times> graph option \<times> globals) option" where
  "parallel_graph_composition s graph1 graph2 source_1 sink_1 source_2 sink_2 =
     (if find_node graph1 source_1 \<noteq> [] \<and> find_node graph1 sink_1 \<noteq> []
         \<and> find_node graph2 source_2 \<noteq> [] \<and> find_node graph2 sink_2 \<noteq> []
      then (case vertex_contraction s (disjoint_graph_union graph1 graph2) source_1 source_2 of
              None \<Rightarrow> None
            | Some (u1, s1) \<Rightarrow>
                (case vertex_contraction s1 u1 sink_1 sink_2 of
                   None \<Rightarrow> None
                 | Some (u2, s2) \<Rightarrow> Some (u2, None, None, s2)))
      else Some ([], Some graph1, Some graph2, s))"

text \<open>
  \<^verbatim>\<open>series_graph_composition\<close>, for two argument lists that share no cell. The result is
  the returned list, the two argument graphs as the call leaves them, and the globals.
  \<^verbatim>\<open>left_node\<close> and \<^verbatim>\<open>right_node\<close> point into the cells of \<^verbatim>\<open>graph1\<close> and \<^verbatim>\<open>graph2\<close>; the
  union is built before the two edges are appended, from copies of the node structs. As
  in the product, a node of the union reaches the edge appended to its original only if
  the original's list was not \<^verbatim>\<open>NULL\<close> when the union was built.
\<close>

definition series_graph_composition ::
  "globals \<Rightarrow> graph \<Rightarrow> graph \<Rightarrow> id_t \<Rightarrow> id_t \<Rightarrow> graph \<times> graph \<times> graph \<times> globals" where
  "series_graph_composition s graph1 graph2 source_id sink_id =
     (case (get_node_from_id graph1 source_id, get_node_from_id graph2 sink_id) of
        (Some l, Some r) \<Rightarrow>
          (let union_graph = disjoint_graph_union graph1 graph2;
               left_node = graph1 ! l;
               right_node = graph2 ! r;
               (e1, s1) = create_new_edge s SERIES_EDGE_DEFAULT_WEIGHT SERIES_EDGE_DEFAULT_LABEL
                            (node_id left_node, node_id right_node);
               left_node' = left_node\<lparr>edges := append_edge (edges left_node) e1\<rparr>;
               graph1' = graph1[l := left_node'];
               union1 = (if edges left_node \<noteq> [] then union_graph[l := left_node']
                         else union_graph);
               (e2, s2) = create_new_edge s1 SERIES_EDGE_DEFAULT_WEIGHT SERIES_EDGE_DEFAULT_LABEL
                            (node_id right_node, node_id left_node);
               right_node' = right_node\<lparr>edges := append_edge (edges right_node) e2\<rparr>;
               graph2' = graph2[r := right_node'];
               union2 = (if edges right_node \<noteq> [] then union1[length graph1 + r := right_node']
                         else union1)
           in (union2, graph1', graph2', s2))
      | _ \<Rightarrow> ([], graph1, graph2, s))"

section \<open>Scenarios\<close>





text \<open>A small state for the concrete instances below: three nodes, the first with two
  edges, and globals whose counters stand behind the ids in use.\<close>

definition ex_globals :: globals where
  "ex_globals =
     \<lparr>global_node_id = 6, revoked_node_ids = [], global_edge_id = 3, revoked_edge_ids = []\<rparr>"

definition ex_edges :: graph_edge_list where
  "ex_edges = [\<lparr>edge_weight = 3, edge_id = 1, edge_label = ''e1'', endpoint_ids = (1, 2)\<rparr>,
               \<lparr>edge_weight = 5, edge_id = 2, edge_label = ''e2'', endpoint_ids = (1, 3)\<rparr>]"

definition ex_graph :: graph where
  "ex_graph = [\<lparr>node_id = 1, node_label = ''a'', edges = ex_edges\<rparr>,
               \<lparr>node_id = 2, node_label = ''b'', edges = []\<rparr>,
               \<lparr>node_id = 3, node_label = ''c'', edges = []\<rparr>]"

definition ex_graph2 :: graph where
  "ex_graph2 = [\<lparr>node_id = 4, node_label = ''d'', edges = []\<rparr>,
                \<lparr>node_id = 5, node_label = ''e'', edges = []\<rparr>]"

text \<open>The complete graph with self-loops on the two nodes of \<open>ex_graph2\<close>, its edges
  carrying the ids 3 to 6 and the defaults of the complement.\<close>

definition ex_graph2_complete :: graph where
  "ex_graph2_complete =
     [\<lparr>node_id = 4, node_label = ''d'', edges =
         [\<lparr>edge_weight = 0, edge_id = 3, edge_label = ''complemented_edge'', endpoint_ids = (4, 4)\<rparr>,
          \<lparr>edge_weight = 0, edge_id = 4, edge_label = ''complemented_edge'', endpoint_ids = (4, 5)\<rparr>]\<rparr>,
      \<lparr>node_id = 5, node_label = ''e'', edges =
         [\<lparr>edge_weight = 0, edge_id = 5, edge_label = ''complemented_edge'', endpoint_ids = (5, 4)\<rparr>,
          \<lparr>edge_weight = 0, edge_id = 6, edge_label = ''complemented_edge'', endpoint_ids = (5, 5)\<rparr>]\<rparr>]"

section \<open>Identifier bookkeeping\<close>

text \<open>The node ids of a graph in list order, and the ids of all edges its nodes own.\<close>

definition node_ids_of :: "graph \<Rightarrow> id_t list" where
  "node_ids_of g = map node_id g"

definition edge_ids_of :: "graph \<Rightarrow> id_t list" where
  "edge_ids_of g = concat (map (\<lambda>n. map edge_id (edges n)) g)"




















section \<open>Basic facts\<close>

lemma append_revoked_id_eq: "append_revoked_id xs i = xs @ [i]"
  by (induction xs) simp_all

lemma find_revoked_id_iff: "find_revoked_id xs i \<longleftrightarrow> i \<in> set xs"
  by (induction xs) auto



lemma graph_dim_eq: "graph_dim g = length g"
  by (induction g) simp_all

lemma find_node_Nil_iff: "find_node g i = [] \<longleftrightarrow> i \<notin> node_id ` set g"
  by (induction g) auto

lemma delete_node_absent: "find_node g i = [] \<Longrightarrow> delete_node s g i = (g, s)"
  by (induction g) (auto split: if_splits)

lemma delete_node_globals:
  "find_node g i \<noteq> [] \<Longrightarrow>
   snd (delete_node s g i) = s\<lparr>revoked_node_ids := revoked_node_ids s @ [i]\<rparr>"
  by (induction g) (auto simp: append_revoked_id_eq split: prod.splits)


lemma revoke_edge_ids_eq:
  "revoke_edge_ids s es = s\<lparr>revoked_edge_ids := revoked_edge_ids s @ map edge_id es\<rparr>"
  by (induction es arbitrary: s) (simp_all add: append_revoked_id_eq)

lemma delete_graph_eq:
  "delete_graph s g =
     ([], s\<lparr>revoked_node_ids := revoked_node_ids s @ map node_id g,
            revoked_edge_ids := revoked_edge_ids s @ concat (map (\<lambda>n. map edge_id (edges n)) g)\<rparr>)"
  by (induction g arbitrary: s) (simp_all add: append_revoked_id_eq revoke_edge_ids_eq)








lemma unlink_edge_absent: "i \<notin> edge_id ` set es \<Longrightarrow> unlink_edge s es i = (es, s)"
  by (induction es) auto




lemma exists_node_from_id_iff:
  "exists_node_from_id s i \<longleftrightarrow> i \<le> global_node_id s \<and> i \<notin> set (revoked_node_ids s)"
  by (simp add: exists_node_from_id_def find_revoked_id_iff)



lemma get_node_from_id_None_iff: "get_node_from_id g i = None \<longleftrightarrow> i \<notin> node_id ` set g"
  by (induction g) auto

section \<open>Facts about the ids accounted for\<close>








lemma node_ids_of_append [simp]: "node_ids_of (g @ h) = node_ids_of g @ node_ids_of h"
  by (simp add: node_ids_of_def)

lemma edge_ids_of_append [simp]: "edge_ids_of (g @ h) = edge_ids_of g @ edge_ids_of h"
  by (simp add: edge_ids_of_def)

lemma node_ids_of_Cons [simp]: "node_ids_of (n # g) = node_id n # node_ids_of g"
  by (simp add: node_ids_of_def)

lemma edge_ids_of_Cons [simp]: "edge_ids_of (n # g) = map edge_id (edges n) @ edge_ids_of g"
  by (simp add: edge_ids_of_def)

lemma node_ids_of_Nil [simp]: "node_ids_of [] = []"
  by (simp add: node_ids_of_def)

lemma edge_ids_of_Nil [simp]: "edge_ids_of [] = []"
  by (simp add: edge_ids_of_def)


























section \<open>Front insertion into an empty collection\<close>

text \<open>
  Claim C9. \<^verbatim>\<open>push_node\<close> applied to the empty graph and \<^verbatim>\<open>push_edge\<close> applied to the
  empty edge list return the empty collection: the element is not inserted. Whenever the
  result differs from the argument, the argument was non-empty and the element is the new
  head.
\<close>

theorem push_on_empty_is_noop:
  "push_node [] n = [] \<and> push_edge [] e = []
   \<and> (push_node g n \<noteq> g \<longrightarrow> g \<noteq> [] \<and> push_node g n = n # g)
   \<and> (push_edge es e \<noteq> es \<longrightarrow> es \<noteq> [] \<and> push_edge es e = e # es)
   \<and> (g \<noteq> [] \<longrightarrow> push_node g n = n # g)
   \<and> (es \<noteq> [] \<longrightarrow> push_edge es e = e # es)"
  by (simp add: push_node_def push_edge_def)

theorem push_on_empty_is_noop_witness:
  "push_node [] \<lparr>node_id = 1, node_label = ''a'', edges = []\<rparr> = []
   \<and> push_node [\<lparr>node_id = 2, node_label = ''b'', edges = []\<rparr>]
        \<lparr>node_id = 1, node_label = ''a'', edges = []\<rparr>
      = [\<lparr>node_id = 1, node_label = ''a'', edges = []\<rparr>,
         \<lparr>node_id = 2, node_label = ''b'', edges = []\<rparr>]
   \<and> push_edge []
        \<lparr>edge_weight = 0, edge_id = 1, edge_label = ''e'', endpoint_ids = (1, 2)\<rparr> = []
   \<and> push_edge [\<lparr>edge_weight = 3, edge_id = 2, edge_label = ''f'', endpoint_ids = (1, 1)\<rparr>]
        \<lparr>edge_weight = 0, edge_id = 1, edge_label = ''e'', endpoint_ids = (1, 2)\<rparr>
      = [\<lparr>edge_weight = 0, edge_id = 1, edge_label = ''e'', endpoint_ids = (1, 2)\<rparr>,
         \<lparr>edge_weight = 3, edge_id = 2, edge_label = ''f'', endpoint_ids = (1, 1)\<rparr>]"
  (is "?A \<and> ?B \<and> ?C \<and> ?D")
proof -
  note t = push_on_empty_is_noop
    [of "\<lparr>node_id = 1, node_label = ''a'', edges = []\<rparr>"
        "\<lparr>edge_weight = 0, edge_id = 1, edge_label = ''e'', endpoint_ids = (1, 2)\<rparr>"
        "[\<lparr>node_id = 2, node_label = ''b'', edges = []\<rparr>]"
        "[\<lparr>edge_weight = 3, edge_id = 2, edge_label = ''f'', endpoint_ids = (1, 1)\<rparr>]"]
  have a: ?A using t by (rule conjunct1)
  have c: ?C using t by blast
  have ne: "[\<lparr>node_id = 2, node_label = ''b'', edges = []\<rparr>] \<noteq> []"
    by (rule list.distinct(2))
  have ne': "[\<lparr>edge_weight = 3, edge_id = 2, edge_label = ''f'', endpoint_ids = (1, 1)\<rparr>] \<noteq> []"
    by (rule list.distinct(2))
  have b: ?B using t ne by blast
  have d: ?D using t ne' by blast
  show ?thesis using a b c d by blast
qed

section \<open>Allocation policy\<close>




section \<open>Frame of node deletion\<close>

text \<open>
  Claim C10. When the id resolves to a node of the graph, \<^verbatim>\<open>delete_node\<close> appends that id
  to the revoked node ids and changes nothing else in the globals: the revoked edge ids
  and both counters are as before, whatever edges the deleted node owns.
  \<^verbatim>\<open>delete_graph\<close>, in contrast, appends every node id of the graph to the revoked node
  ids and every edge id of every node to the revoked edge ids.
\<close>

theorem delete_node_revokes_node_id_only:
  "(find_node g i \<noteq> [] \<longrightarrow>
      snd (delete_node s g i) = s\<lparr>revoked_node_ids := revoked_node_ids s @ [i]\<rparr>
      \<and> revoked_edge_ids (snd (delete_node s g i)) = revoked_edge_ids s
      \<and> global_node_id (snd (delete_node s g i)) = global_node_id s
      \<and> global_edge_id (snd (delete_node s g i)) = global_edge_id s)
   \<and> delete_graph s g =
       ([], s\<lparr>revoked_node_ids := revoked_node_ids s @ map node_id g,
              revoked_edge_ids :=
                revoked_edge_ids s @ concat (map (\<lambda>n. map edge_id (edges n)) g)\<rparr>)"
  by (simp add: delete_node_globals delete_graph_eq)

theorem delete_node_revokes_node_id_only_witness:
  "find_node ex_graph 1 \<noteq> [] \<and> edges (hd (find_node ex_graph 1)) \<noteq> []
   \<and> snd (delete_node ex_globals ex_graph 1) = ex_globals\<lparr>revoked_node_ids := [1]\<rparr>
   \<and> revoked_edge_ids (snd (delete_node ex_globals ex_graph 1)) = []
   \<and> snd (delete_graph ex_globals ex_graph)
       = ex_globals\<lparr>revoked_node_ids := [1, 2, 3], revoked_edge_ids := [1, 2]\<rparr>"
proof -
  note t = delete_node_revokes_node_id_only [of ex_graph 1 ex_globals]
  have f: "find_node ex_graph 1 \<noteq> []" by (simp add: ex_graph_def)
  have e: "edges (hd (find_node ex_graph 1)) \<noteq> []" by (simp add: ex_graph_def ex_edges_def)
  have p: "revoked_node_ids ex_globals = []" "revoked_edge_ids ex_globals = []"
    by (simp_all add: ex_globals_def)
  have a: "snd (delete_node ex_globals ex_graph 1) = ex_globals\<lparr>revoked_node_ids := [1]\<rparr>"
    using t f p by simp
  have b: "revoked_edge_ids (snd (delete_node ex_globals ex_graph 1)) = []"
    using t f p by simp
  have c: "snd (delete_graph ex_globals ex_graph)
       = ex_globals\<lparr>revoked_node_ids := [1, 2, 3], revoked_edge_ids := [1, 2]\<rparr>"
    using t p by (simp add: ex_graph_def ex_edges_def)
  show ?thesis using f e a b c by blast
qed

section \<open>Ids reported in use\<close>

text \<open>
  Claim C3. \<^verbatim>\<open>exists_node_from_id\<close> and \<^verbatim>\<open>exists_edge_from_id\<close> compare the id with the
  counter by \<^verbatim>\<open><=\<close>, and the counter holds the next id to issue, one above the highest id
  issued. With the initial globals, where no id has been issued, id 1 is reported in use
  in both namespaces; after one node has been created (it receives id 1 and the counter
  becomes 2), id 2 is reported in use.
\<close>

theorem in_use_accepts_the_unissued_counter_value:
  "exists_node_from_id initial_globals 1 \<and> exists_edge_from_id initial_globals 1
   \<and> (case create_new_node initial_globals ''a'' of
        (n, s) \<Rightarrow> node_id n = 1 \<and> global_node_id s = 2 \<and> exists_node_from_id s 2)
   \<and> (case create_new_edge initial_globals 0 ''e'' (1, 1) of
        (e, s) \<Rightarrow> edge_id e = 1 \<and> global_edge_id s = 2 \<and> exists_edge_from_id s 2)"
  by code_simp

section \<open>Contraction into a node without edges\<close>

text \<open>
  Claim C1. Graph: node B (id 1) without edges, node A (id 2) with one edge to node C
  (id 3). Contracting A into B, \<^verbatim>\<open>vertex_contraction(graph, 1, 2)\<close>, returns B and C, and
  B still has no edge: the edge from A to C, which the union of the two edge collections
  contains, is in no edge collection of the result.
\<close>

theorem vertex_contraction_drops_donor_edges:
  "vertex_contraction
     \<lparr>global_node_id = 4, revoked_node_ids = [], global_edge_id = 2, revoked_edge_ids = []\<rparr>
     [\<lparr>node_id = 1, node_label = ''B'', edges = []\<rparr>,
      \<lparr>node_id = 2, node_label = ''A'',
         edges = [\<lparr>edge_weight = 3, edge_id = 1, edge_label = ''edge1'',
                   endpoint_ids = (2, 3)\<rparr>]\<rparr>,
      \<lparr>node_id = 3, node_label = ''C'', edges = []\<rparr>]
     1 2
   = Some ([\<lparr>node_id = 1, node_label = ''B'', edges = []\<rparr>,
            \<lparr>node_id = 3, node_label = ''C'', edges = []\<rparr>],
           \<lparr>global_node_id = 4, revoked_node_ids = [2], global_edge_id = 2,
              revoked_edge_ids = []\<rparr>)"
  by code_simp

section \<open>Size of the Cartesian product\<close>

text \<open>
  Claim C6. \<^verbatim>\<open>graph1\<close>: nodes 1 and 2 with one edge from 1 to 2; \<^verbatim>\<open>graph2\<close>: the single
  node 3 without edges; neither has a self-loop. The product has the 2 * 1 = 2 nodes the
  claim gives, but no edge at all, where the claim gives 2 * 0 + 1 * 1 = 1: the edge
  created between the two layers (edge id 2 is consumed) is linked from the copy's cell
  only.
\<close>

theorem cartesian_product_loses_layer_edges:
  "cartesian_graph_product
     \<lparr>global_node_id = 4, revoked_node_ids = [], global_edge_id = 2, revoked_edge_ids = []\<rparr>
     [\<lparr>node_id = 1, node_label = ''a'',
         edges = [\<lparr>edge_weight = 3, edge_id = 1, edge_label = ''e'', endpoint_ids = (1, 2)\<rparr>]\<rparr>,
      \<lparr>node_id = 2, node_label = ''b'', edges = []\<rparr>]
     [\<lparr>node_id = 3, node_label = ''c'', edges = []\<rparr>]
   = ([\<lparr>node_id = 4, node_label = ''c'', edges = []\<rparr>,
       \<lparr>node_id = 5, node_label = ''c'', edges = []\<rparr>],
      \<lparr>global_node_id = 6, revoked_node_ids = [], global_edge_id = 3, revoked_edge_ids = []\<rparr>)"
  by code_simp

section \<open>Series composition of nodes without edges\<close>

text \<open>
  Claim C7. \<^verbatim>\<open>graph1\<close> is the single node 1, \<^verbatim>\<open>graph2\<close> the single node 2, neither with
  an edge. \<^verbatim>\<open>series_graph_composition(graph1, graph2, 1, 2)\<close> returns the two nodes
  without any edge. The two new edges (ids 1 and 2) are appended to the nodes of the
  argument graphs, not to those of the returned list.
\<close>

theorem series_composition_returns_no_bridge:
  "series_graph_composition
     \<lparr>global_node_id = 3, revoked_node_ids = [], global_edge_id = 1, revoked_edge_ids = []\<rparr>
     [\<lparr>node_id = 1, node_label = ''a'', edges = []\<rparr>]
     [\<lparr>node_id = 2, node_label = ''b'', edges = []\<rparr>] 1 2
   = ([\<lparr>node_id = 1, node_label = ''a'', edges = []\<rparr>,
       \<lparr>node_id = 2, node_label = ''b'', edges = []\<rparr>],
      [\<lparr>node_id = 1, node_label = ''a'',
          edges = [\<lparr>edge_weight = 0, edge_id = 1, edge_label = ''series_composition_edge'',
                    endpoint_ids = (1, 2)\<rparr>]\<rparr>],
      [\<lparr>node_id = 2, node_label = ''b'',
          edges = [\<lparr>edge_weight = 0, edge_id = 2, edge_label = ''series_composition_edge'',
                    endpoint_ids = (2, 1)\<rparr>]\<rparr>],
      \<lparr>global_node_id = 3, revoked_node_ids = [], global_edge_id = 3, revoked_edge_ids = []\<rparr>)"
  by code_simp

section \<open>Compositions given an id that does not resolve\<close>

text \<open>
  Claim C2. If one of the four ids is not the id of a node of its graph,
  \<^verbatim>\<open>parallel_graph_composition\<close> returns \<^verbatim>\<open>NULL\<close>; if the source id is not the id of a node
  of \<^verbatim>\<open>graph1\<close> or the sink id not the id of a node of \<^verbatim>\<open>graph2\<close>,
  \<^verbatim>\<open>series_graph_composition\<close> returns \<^verbatim>\<open>NULL\<close>. In both cases the two argument graphs
  and the globals are left as they were.
\<close>

theorem composition_fails_without_mutation:
  "(source_1 \<notin> node_id ` set graph1 \<or> sink_1 \<notin> node_id ` set graph1
      \<or> source_2 \<notin> node_id ` set graph2 \<or> sink_2 \<notin> node_id ` set graph2 \<longrightarrow>
      parallel_graph_composition s graph1 graph2 source_1 sink_1 source_2 sink_2
        = Some ([], Some graph1, Some graph2, s))
   \<and> (source_id \<notin> node_id ` set graph1 \<or> sink_id \<notin> node_id ` set graph2 \<longrightarrow>
      series_graph_composition s graph1 graph2 source_id sink_id = ([], graph1, graph2, s))"
proof (intro conjI impI)
  assume "source_1 \<notin> node_id ` set graph1 \<or> sink_1 \<notin> node_id ` set graph1
      \<or> source_2 \<notin> node_id ` set graph2 \<or> sink_2 \<notin> node_id ` set graph2"
  then have "find_node graph1 source_1 = [] \<or> find_node graph1 sink_1 = []
      \<or> find_node graph2 source_2 = [] \<or> find_node graph2 sink_2 = []"
    by (simp add: find_node_Nil_iff)
  then show "parallel_graph_composition s graph1 graph2 source_1 sink_1 source_2 sink_2
        = Some ([], Some graph1, Some graph2, s)"
    by (auto simp: parallel_graph_composition_def)
next
  assume "source_id \<notin> node_id ` set graph1 \<or> sink_id \<notin> node_id ` set graph2"
  then have "get_node_from_id graph1 source_id = None \<or> get_node_from_id graph2 sink_id = None"
    by (simp add: get_node_from_id_None_iff)
  then show "series_graph_composition s graph1 graph2 source_id sink_id = ([], graph1, graph2, s)"
    by (auto simp: series_graph_composition_def split: option.splits)
qed

theorem composition_fails_without_mutation_witness:
  "3 \<notin> node_id ` set ex_graph2
   \<and> parallel_graph_composition ex_globals ex_graph ex_graph2 1 2 4 3
       = Some ([], Some ex_graph, Some ex_graph2, ex_globals)
   \<and> series_graph_composition ex_globals ex_graph ex_graph2 1 3
       = ([], ex_graph, ex_graph2, ex_globals)"
proof -
  note t = composition_fails_without_mutation [where ?source_1.0 = 1 and ?sink_1.0 = 2 and ?source_2.0 = 4
      and ?sink_2.0 = 3 and ?graph1.0 = ex_graph and ?graph2.0 = ex_graph2 and s = ex_globals
      and source_id = 1 and sink_id = 3]
  have h: "3 \<notin> node_id ` set ex_graph2" by (simp add: ex_graph2_def)
  have a: "parallel_graph_composition ex_globals ex_graph ex_graph2 1 2 4 3
       = Some ([], Some ex_graph, Some ex_graph2, ex_globals)"
    using t h by blast
  have b: "series_graph_composition ex_globals ex_graph ex_graph2 1 3
       = ([], ex_graph, ex_graph2, ex_globals)"
    using t h by blast
  show ?thesis using h a b by blast
qed

section \<open>Uniqueness of live identifiers\<close>




section \<open>Complement applied twice\<close>

text \<open>
  Claim C5 says that for every simple graph without self-loops and parallel edges,
  applying \<^verbatim>\<open>complement_graph\<close> twice gives back the original adjacency matrix. The code
  builds for every node a template of edges to all nodes and deletes from it the cells
  whose endpoints an old edge of the node has; after each such deletion its loop reads
  the \<^verbatim>\<open>next\<close> field of the cell just freed. So on \<open>ex_graph\<close> (three nodes, edges from
  node 1 to nodes 2 and 3) already the first application reads a freed cell. On the
  edgeless \<open>ex_graph2\<close> the first application deletes nothing and returns the complete
  graph with self-loops, and the second application reads a freed cell at its first
  node. In neither case is there a twice complemented graph whose matrix could be
  compared.
\<close>

theorem complement_reads_freed_template_cell:
  "complement_graph ex_globals ex_graph = Inl Read_of_freed_cell
   \<and> complement_graph ex_globals ex_graph2
       = Inr (ex_graph2_complete, ex_globals\<lparr>global_edge_id := 7\<rparr>)
   \<and> create_graph_matrix ex_graph2 = Some [0, 0, 0, 0]
   \<and> create_graph_matrix ex_graph2_complete = Some [1, 1, 1, 1]
   \<and> complement_graph (ex_globals\<lparr>global_edge_id := 7\<rparr>) ex_graph2_complete
       = Inl Read_of_freed_cell"
proof -
  have a: "complement_graph ex_globals ex_graph = Inl Read_of_freed_cell" by code_simp
  have b: "complement_graph ex_globals ex_graph2
       = Inr (ex_graph2_complete, ex_globals\<lparr>global_edge_id := 7\<rparr>)" by code_simp
  have c: "create_graph_matrix ex_graph2 = Some [0, 0, 0, 0]" by code_simp
  have d: "create_graph_matrix ex_graph2_complete = Some [1, 1, 1, 1]" by code_simp
  have e: "complement_graph (ex_globals\<lparr>global_edge_id := 7\<rparr>) ex_graph2_complete
       = Inl Read_of_freed_cell" by code_simp
  show ?thesis using a b c d e by blast
qed

end
